theory Spec2Isabelle
  imports Complex_Main "HOL-Library.Multiset"
begin

section \<open>Data model of the stock alert bot (main.py)\<close>

text \<open>
  The sheets are read with \<^verbatim>\<open>get_all_records\<close>: a row is a dictionary from column
  names to cells. A cell is text or a number. Ticker symbols, user names and the columns
  of the alert log are text; the price columns are cells that \<^verbatim>\<open>float()\<close> has to parse.
  Python floats are modelled as \<open>real\<close>: the program only compares them and
  doubles one of them. \<^verbatim>\<open>row.get(col)\<close> of an absent column is \<open>None\<close>.
\<close>

datatype cell = Str string | Num real

datatype exn = KeyError string | Exception string

record user_info =
  telegram_id :: string
  email :: string

record ath_row =
  Stock :: string
  ATH_Current_Month :: "cell option"
  ATH :: "cell option"

record holding =
  h_Stock :: string
  Buy_Price :: "cell option"
  SMA_10M :: "cell option"
  SMA_20M :: "cell option"
  Name :: "string option"

text \<open>
  A row of the Alert\_Log sheet. The fifth column, the wall-clock time of the append, is
  left out: nothing reads it.
\<close>

record log_row =
  User :: string
  log_Stock :: string
  YearMonth :: string
  AlertType :: string

text \<open>
  The text of an alert is an f-string; the model keeps its interpolated fields:
  stock, live price, reference (ATH or buy price), the reason of a sell alert and the
  ordinal \<open>prev_count + 1\<close>.
\<close>

datatype message =
  BuyAlert string real real nat
| SellAlert string real real string nat

datatype notification =
  Telegram string message
| Email string string message

datatype event = Scan_started | Exception_in_main_loop exn | Waiting nat

text \<open>
  What the process changes: the global dictionary \<open>alert_counters\<close>, the messages handed
  to the two channels (in order), the rows appended to the Alert\_Log sheet, and the
  lines printed by the scan loop itself.
\<close>

record world =
  alert_counters :: "string \<rightharpoonup> nat"
  outbox :: "notification list"
  appended :: "log_row list"
  console :: "event list"

text \<open>
  What one pass of the loop reads from outside: the interpreter's conversions between
  floats and text, the clock, and whether the k-th \<^verbatim>\<open>append_row\<close> call (counted over
  the rows appended so far) raises.
\<close>

record env =
  float_of_str :: "string \<Rightarrow> real option"
  str_of_float :: "real \<Rightarrow> string"
  year_month :: string
  today :: string
  append_raises :: "nat \<Rightarrow> bool"

definition MAX_ALERTS_PER_TRIGGER :: nat where
  "MAX_ALERTS_PER_TRIGGER = 5"

definition CHECK_INTERVAL :: nat where
  "CHECK_INTERVAL = 5 * 60"

section \<open>Python values\<close>

fun truthy :: "cell option \<Rightarrow> bool" where
  "truthy None = False"
| "truthy (Some (Str s)) = (s \<noteq> [])"
| "truthy (Some (Num x)) = (x \<noteq> 0)"

definition py_or :: "cell option \<Rightarrow> cell option \<Rightarrow> cell option" where
  "py_or a b = (if truthy a then a else b)"

text \<open>\<^verbatim>\<open>float(x)\<close>: \<open>None\<close> is the TypeError or ValueError that the bare except catches.\<close>

fun py_float :: "env \<Rightarrow> cell option \<Rightarrow> real option" where
  "py_float e None = None"
| "py_float e (Some (Num x)) = Some x"
| "py_float e (Some (Str s)) = float_of_str e s"

fun py_str :: "string option \<Rightarrow> string" where
  "py_str None = ''None''"
| "py_str (Some s) = s"

fun world_of :: "(exn \<times> world) + world \<Rightarrow> world" where
  "world_of (Inl (x, w)) = w"
| "world_of (Inr w) = w"

section \<open>Alert log helpers\<close>

fun buy_alert_sent_this_month :: "log_row list \<Rightarrow> string \<Rightarrow> string \<Rightarrow> string \<Rightarrow> bool" where
  "buy_alert_sent_this_month [] user stock ym = False"
| "buy_alert_sent_this_month (r # alert_log_data) user stock ym =
     (if User r = user \<and> log_Stock r = stock \<and> YearMonth r = ym \<and> AlertType r = ''buy''
      then True
      else buy_alert_sent_this_month alert_log_data user stock ym)"

text \<open>\<^verbatim>\<open>append_row\<close> is a network call: it appends the row or raises.\<close>

definition log_buy_alert_month ::
  "env \<Rightarrow> string \<Rightarrow> string \<Rightarrow> string \<Rightarrow> world \<Rightarrow> (exn \<times> world) + world" where
  "log_buy_alert_month e user stock ym w =
     (if append_raises e (length (appended w))
      then Inl (Exception ''append_row'', w)
      else Inr (w\<lparr>appended := appended w @
             [\<lparr>User = user, log_Stock = stock, YearMonth = ym, AlertType = ''buy''\<rparr>]\<rparr>))"

section \<open>Dispatch and the buy signal\<close>

text \<open>
  \<^verbatim>\<open>send_telegram_alert\<close> and \<^verbatim>\<open>send_email_alert\<close> catch their own errors; a
  send is recorded as handed to the channel.
\<close>

definition dispatch :: "string \<Rightarrow> string \<Rightarrow> string \<Rightarrow> message \<Rightarrow> notification list" where
  "dispatch chat_id email_addr subject msg =
     (if chat_id \<noteq> [] then [Telegram chat_id msg] else []) @
     (if email_addr \<noteq> [] then [Email email_addr subject msg] else [])"

definition buy_key :: "env \<Rightarrow> string \<Rightarrow> string \<Rightarrow> real \<Rightarrow> string" where
  "buy_key e user_name stock ath_float =
     ''buy:'' @ user_name @ '':'' @ stock @ '':'' @ str_of_float e ath_float @ '':'' @ today e"

definition get_count :: "(string \<rightharpoonup> nat) \<Rightarrow> string \<Rightarrow> nat" where
  "get_count counters k = (case counters k of None \<Rightarrow> 0 | Some c \<Rightarrow> c)"

text \<open>The body of the loop over \<open>user_map.items()\<close> (lines 151 to 170).\<close>

definition buy_user ::
  "env \<Rightarrow> log_row list \<Rightarrow> string \<Rightarrow> real \<Rightarrow> real \<Rightarrow> string \<times> user_info \<Rightarrow> world
     \<Rightarrow> (exn \<times> world) + world" where
  "buy_user e alert_log_data stock ath_float live_float u w =
     (let user_name = fst u; chat_id = telegram_id (snd u); email_addr = email (snd u) in
      if buy_alert_sent_this_month alert_log_data user_name stock (year_month e) then Inr w
      else if live_float > ath_float then
        (let alert_key = buy_key e user_name stock ath_float;
             prev_count = get_count (alert_counters w) alert_key;
             w1 = (if prev_count < MAX_ALERTS_PER_TRIGGER
                   then w\<lparr>outbox := outbox w @
                            dispatch chat_id email_addr (''BUY ALERT for '' @ stock)
                              (BuyAlert stock live_float ath_float (prev_count + 1)),
                          alert_counters := (alert_counters w)(alert_key \<mapsto> prev_count + 1)\<rparr>
                   else w)
         in case alert_counters w1 alert_key of
              None \<Rightarrow> Inl (KeyError alert_key, w1)
            | Some c \<Rightarrow>
                if c = MAX_ALERTS_PER_TRIGGER
                then log_buy_alert_month e user_name stock (year_month e) w1
                else Inr w1)
      else Inr w)"

fun buy_users ::
  "env \<Rightarrow> log_row list \<Rightarrow> string \<Rightarrow> real \<Rightarrow> real \<Rightarrow> (string \<times> user_info) list \<Rightarrow> world
     \<Rightarrow> (exn \<times> world) + world" where
  "buy_users e alert_log_data stock ath_float live_float [] w = Inr w"
| "buy_users e alert_log_data stock ath_float live_float (u # user_map) w =
     (case buy_user e alert_log_data stock ath_float live_float u w of
        Inl xw \<Rightarrow> Inl xw
      | Inr w' \<Rightarrow> buy_users e alert_log_data stock ath_float live_float user_map w')"

text \<open>
  \<open>prices.get(stock)\<close>: \<open>None\<close> when the symbol has no entry and when its entry
  is \<open>None\<close>.
\<close>

definition price_get :: "(string \<rightharpoonup> real option) \<Rightarrow> string \<Rightarrow> real option" where
  "price_get prices stock = (case prices stock of None \<Rightarrow> None | Some p \<Rightarrow> p)"

text \<open>The body of the loop over \<open>ath_data\<close> (lines 140 to 170).\<close>

definition buy_row ::
  "env \<Rightarrow> log_row list \<Rightarrow> (string \<times> user_info) list \<Rightarrow> (string \<rightharpoonup> real option) \<Rightarrow> ath_row
     \<Rightarrow> world \<Rightarrow> (exn \<times> world) + world" where
  "buy_row e alert_log_data user_map prices row w =
     (let stock = Stock row;
          ath = py_or (ATH_Current_Month row) (ATH row);
          live_price = price_get prices stock
      in if stock = [] \<or> \<not> truthy ath \<or> live_price = None then Inr w
         else case (py_float e ath, live_price) of
                (Some ath_float, Some live_float) \<Rightarrow>
                  buy_users e alert_log_data stock ath_float live_float user_map w
              | _ \<Rightarrow> Inr w)"

fun buy_phase ::
  "env \<Rightarrow> log_row list \<Rightarrow> (string \<times> user_info) list \<Rightarrow> (string \<rightharpoonup> real option)
     \<Rightarrow> ath_row list \<Rightarrow> world \<Rightarrow> (exn \<times> world) + world" where
  "buy_phase e alert_log_data user_map prices [] w = Inr w"
| "buy_phase e alert_log_data user_map prices (row # ath_data) w =
     (case buy_row e alert_log_data user_map prices row w of
        Inl xw \<Rightarrow> Inl xw
      | Inr w' \<Rightarrow> buy_phase e alert_log_data user_map prices ath_data w')"

section \<open>The sell signal\<close>

text \<open>Lines 205 to 214: the pair \<open>(sell_signal, sell_reason)\<close>.\<close>

definition sell_signal :: "env \<Rightarrow> real \<Rightarrow> real \<Rightarrow> real \<Rightarrow> real \<Rightarrow> bool \<times> string" where
  "sell_signal e live_price buy_price sma_10m sma_20m =
     (if live_price < buy_price * 2 then
        (if live_price < sma_20m \<and> sma_20m > 0
         then (True, ''Price below 20M SMA ('' @ str_of_float e sma_20m @ '')'')
         else (False, []))
      else
        (if live_price < sma_10m \<and> sma_10m > 0
         then (True, ''Price below 10M SMA ('' @ str_of_float e sma_10m @ '')'')
         else (False, [])))"

definition sell_key :: "string option \<Rightarrow> string \<Rightarrow> string \<Rightarrow> string" where
  "sell_key user_name stock sell_reason =
     ''sell:'' @ py_str user_name @ '':'' @ stock @ '':'' @ sell_reason"

definition lookup_user :: "(string \<times> user_info) list \<Rightarrow> string option \<Rightarrow> user_info option" where
  "lookup_user user_map user_name =
     (case user_name of None \<Rightarrow> None | Some n \<Rightarrow> map_of user_map n)"

text \<open>Lines 200 to 228: the holding's numbers are parsed, the owner is looked up.\<close>

definition sell_alert ::
  "env \<Rightarrow> (string \<times> user_info) list \<Rightarrow> holding \<Rightarrow> string \<Rightarrow> real \<Rightarrow> real \<Rightarrow> real \<Rightarrow> real
     \<Rightarrow> world \<Rightarrow> world" where
  "sell_alert e user_map row stock buy_price live_price sma_10m sma_20m w =
     (let user_name = Name row;
          chat_id = (case lookup_user user_map user_name of
                       Some ui \<Rightarrow> telegram_id ui | None \<Rightarrow> []);
          email_addr = (case lookup_user user_map user_name of
                          Some ui \<Rightarrow> email ui | None \<Rightarrow> []);
          signal = sell_signal e live_price buy_price sma_10m sma_20m
      in if fst signal then
           (let sell_reason = snd signal;
                alert_key = sell_key user_name stock sell_reason;
                prev_count = get_count (alert_counters w) alert_key
            in if prev_count < MAX_ALERTS_PER_TRIGGER
               then w\<lparr>outbox := outbox w @
                        dispatch chat_id email_addr (''SELL ALERT for '' @ stock)
                          (SellAlert stock live_price buy_price sell_reason (prev_count + 1)),
                      alert_counters := (alert_counters w)(alert_key \<mapsto> prev_count + 1)\<rparr>
               else w)
         else w)"

text \<open>The body of the loop over \<open>active_data\<close> (lines 180 to 228).\<close>

definition sell_row ::
  "env \<Rightarrow> (string \<times> user_info) list \<Rightarrow> (string \<rightharpoonup> real option) \<Rightarrow> holding \<Rightarrow> world \<Rightarrow> world" where
  "sell_row e user_map ah_prices row w =
     (let stock = h_Stock row in
      if stock = [] then w
      else case py_float e (Buy_Price row) of
             None \<Rightarrow> w
           | Some buy_price \<Rightarrow>
               (case price_get ah_prices stock of
                  None \<Rightarrow> w
                | Some live_price \<Rightarrow>
                    (case (py_float e (py_or (SMA_10M row) (Some (Num 0))),
                           py_float e (py_or (SMA_20M row) (Some (Num 0)))) of
                       (Some sma_10m, Some sma_20m) \<Rightarrow>
                         sell_alert e user_map row stock buy_price live_price sma_10m sma_20m w
                     | _ \<Rightarrow> w)))"

fun sell_phase ::
  "env \<Rightarrow> (string \<times> user_info) list \<Rightarrow> (string \<rightharpoonup> real option) \<Rightarrow> holding list \<Rightarrow> world
     \<Rightarrow> world" where
  "sell_phase e user_map ah_prices [] w = w"
| "sell_phase e user_map ah_prices (row # active_data) w =
     sell_phase e user_map ah_prices active_data (sell_row e user_map ah_prices row w)"

section \<open>The price fetcher\<close>

text \<open>
  What \<^verbatim>\<open>yf.Ticker(s).history(period="1d")\<close> does inside the try block of one lookup
  thread: it raises, or it returns the Close column (empty when there is no data).
\<close>

datatype history = Raises exn | Closes "real list"

definition upper_char :: "char \<Rightarrow> char" where
  "upper_char c =
     (let n = (of_char c :: nat) in if 97 \<le> n \<and> n \<le> 122 then char_of (n - 32) else c)"

definition yf_symbol :: "string \<Rightarrow> string" where
  "yf_symbol symbol = map upper_char symbol @ ''.NS''"

text \<open>\<open>fetch_price\<close> returns the one pair that the thread puts on the queue.\<close>

definition fetch_price :: "(string \<Rightarrow> history) \<Rightarrow> string \<Rightarrow> string \<times> real option" where
  "fetch_price ticker symbol =
     (case ticker (yf_symbol symbol) of
        Closes hist \<Rightarrow> (if hist \<noteq> [] then (symbol, Some (last hist)) else (symbol, None))
      | Raises x \<Rightarrow> (symbol, None))"

text \<open>
  The threads finish in any order. The order is given by a list of picks: each pick
  chooses, among the threads still running, the one that puts its pair next. Every
  order of the queue comes from some list of picks.
\<close>

fun finish_order :: "nat list \<Rightarrow> 'a list \<Rightarrow> 'a list" where
  "finish_order picks [] = []"
| "finish_order [] (x # xs) = x # xs"
| "finish_order (k # picks) (x # xs) =
     (let i = k mod length (x # xs)
      in (x # xs) ! i # finish_order picks (take i (x # xs) @ drop (Suc i) (x # xs)))"

fun drain :: "(string \<times> real option) list \<Rightarrow> (string \<rightharpoonup> real option) \<Rightarrow> (string \<rightharpoonup> real option)" where
  "drain [] result = result"
| "drain ((symb, price) # out_q) result = drain out_q (result(symb \<mapsto> price))"

text \<open>
  \<open>ticker i\<close> is what the market data provider answers to the i-th thread.
\<close>

definition get_prices ::
  "(nat \<Rightarrow> string \<Rightarrow> history) \<Rightarrow> nat list \<Rightarrow> string list \<Rightarrow> (string \<rightharpoonup> real option)" where
  "get_prices ticker picks symbols =
     drain (finish_order picks
              (map (\<lambda>(i, s). fetch_price (ticker i) s) (enumerate 0 symbols)))
           Map.empty"

section \<open>The scan loop\<close>

record sheets =
  ath_data :: "ath_row list"
  user_map :: "(string \<times> user_info) list"
  active_data :: "holding list"
  alert_log_data :: "log_row list"

text \<open>Everything one cycle reads from outside the process.\<close>

record cycle =
  cycle_env :: env
  load_sheets :: "exn + sheets"
  buy_ticker :: "nat \<Rightarrow> string \<Rightarrow> history"
  buy_picks :: "nat list"
  sell_ticker :: "nat \<Rightarrow> string \<Rightarrow> history"
  sell_picks :: "nat list"

text \<open>The try block of \<open>main_loop\<close> (lines 131 to 230).\<close>

definition scan :: "cycle \<Rightarrow> world \<Rightarrow> (exn \<times> world) + world" where
  "scan c w =
     (case load_sheets c of
        Inl x \<Rightarrow> Inl (x, w)
      | Inr sh \<Rightarrow>
          (let stock_symbols = filter (\<lambda>s. s \<noteq> []) (map Stock (ath_data sh));
               prices = get_prices (buy_ticker c) (buy_picks c) stock_symbols
           in case buy_phase (cycle_env c) (alert_log_data sh) (user_map sh) prices
                     (ath_data sh) w of
                Inl xw \<Rightarrow> Inl xw
              | Inr w1 \<Rightarrow>
                  (let ah_symbols = filter (\<lambda>s. s \<noteq> []) (map h_Stock (active_data sh));
                       ah_prices = get_prices (sell_ticker c) (sell_picks c) ah_symbols
                   in Inr (sell_phase (cycle_env c) (user_map sh) ah_prices
                             (active_data sh) w1))))"

text \<open>
  One pass of \<^verbatim>\<open>while True\<close>: the start line, the try block with its
  \<^verbatim>\<open>except Exception\<close> handler, the waiting line and the sleep. Every \<open>exn\<close> of the
  model is an instance of Python's \<open>Exception\<close>.
\<close>

definition iteration :: "cycle \<Rightarrow> world \<Rightarrow> world" where
  "iteration c w =
     (let w0 = w\<lparr>console := console w @ [Scan_started]\<rparr>;
          w1 = (case scan c w0 of
                  Inl (x, w') \<Rightarrow> w'\<lparr>console := console w' @ [Exception_in_main_loop x]\<rparr>
                | Inr w' \<Rightarrow> w')
      in w1\<lparr>console := console w1 @ [Waiting (CHECK_INTERVAL div 60)]\<rparr>)"

text \<open>
  The loop has no exit. \<open>main_loop cs w\<close> is the world after the passes that read
  the cycles \<open>cs\<close>, one after the other.
\<close>

fun main_loop :: "cycle list \<Rightarrow> world \<Rightarrow> world" where
  "main_loop [] w = w"
| "main_loop (c # cs) w = main_loop cs (iteration c w)"

definition initial :: world where
  "initial = \<lparr>alert_counters = Map.empty, outbox = [], appended = [], console = []\<rparr>"

definition capped :: "world \<Rightarrow> bool" where
  "capped w = (\<forall>k c. alert_counters w k = Some c \<longrightarrow> c \<le> MAX_ALERTS_PER_TRIGGER)"

section \<open>Concrete inputs\<close>

text \<open>
  A cycle environment, a user with both contact methods and one with none. The float
  printer of the fixture is only right on the values used below.
\<close>

definition demo_env :: env where
  "demo_env = \<lparr>float_of_str = (\<lambda>s. None),
                str_of_float = (\<lambda>x. if x = 100 then ''100.0'' else if x = 160 then ''160.0''
                                   else ''170.0''),
                year_month = ''2024-05'', today = ''2024-05-01'',
                append_raises = (\<lambda>k. False)\<rparr>"

definition demo_user :: "string \<times> user_info" where
  "demo_user = (''U'', \<lparr>telegram_id = ''42'', email = ''u@example.org''\<rparr>)"

definition silent_user :: "string \<times> user_info" where
  "silent_user = (''U'', \<lparr>telegram_id = [], email = []\<rparr>)"

definition demo_log_row :: log_row where
  "demo_log_row = \<lparr>User = ''U'', log_Stock = ''AAA'', YearMonth = ''2024-05'', AlertType = ''buy''\<rparr>"

definition with_count :: "string \<Rightarrow> nat \<Rightarrow> world" where
  "with_count k n = initial\<lparr>alert_counters := [k \<mapsto> n]\<rparr>"

definition capped_world :: world where
  "capped_world = initial\<lparr>alert_counters :=
     [buy_key demo_env ''U'' ''AAA'' 100 \<mapsto> 5,
      sell_key (Some ''U'') ''AAA'' ''Price below 20M SMA (160.0)'' \<mapsto> 5]\<rparr>"

definition demo_holding :: holding where
  "demo_holding = \<lparr>h_Stock = ''AAA'', Buy_Price = Some (Num 100), SMA_10M = None,
                    SMA_20M = Some (Num 160), Name = Some ''U''\<rparr>"

definition demo_ticker :: "nat \<Rightarrow> string \<Rightarrow> history" where
  "demo_ticker i s = (if i = 0 then Raises (Exception ''no data'') else Closes [10, 12])"

text \<open>
  A log whose matching row is not the first one, and a holding that has doubled, with
  the environment that prints its 10-month average.
\<close>

definition other_log_row :: log_row where
  "other_log_row = \<lparr>User = ''V'', log_Stock = ''BBB'', YearMonth = ''2024-04'', AlertType = ''buy''\<rparr>"

definition doubled_env :: env where
  "doubled_env = demo_env\<lparr>str_of_float := (\<lambda>x. if x = 220 then ''220.0'' else ''160.0'')\<rparr>"

definition doubled_holding :: holding where
  "doubled_holding = \<lparr>h_Stock = ''AAA'', Buy_Price = Some (Num 100), SMA_10M = Some (Num 220),
                       SMA_20M = Some (Num 160), Name = Some ''U''\<rparr>"

text \<open>A watch list that names the same stock twice, with one user and no holdings.\<close>

definition demo_ath_row :: ath_row where
  "demo_ath_row = \<lparr>Stock = ''AAA'', ATH_Current_Month = None, ATH = Some (Num 100)\<rparr>"

definition dup_cycle :: cycle where
  "dup_cycle = \<lparr>cycle_env = demo_env,
                 load_sheets = Inr \<lparr>ath_data = [demo_ath_row, demo_ath_row],
                                     user_map = [demo_user], active_data = [],
                                     alert_log_data = []\<rparr>,
                 buy_ticker = (\<lambda>i s. Closes [105]), buy_picks = [],
                 sell_ticker = (\<lambda>i s. Closes []), sell_picks = []\<rparr>"





section \<open>Auxiliary facts\<close>

lemma get_count_upd: "get_count (m(k \<mapsto> v)) k = v"
  by (simp add: get_count_def)

lemma world_of_log_counters:
  "alert_counters (world_of (log_buy_alert_month e un st ym w)) = alert_counters w"
  by (simp add: log_buy_alert_month_def)

lemma world_of_log_outbox:
  "outbox (world_of (log_buy_alert_month e un st ym w)) = outbox w"
  by (simp add: log_buy_alert_month_def)


lemma buy_user_at_cap:
  "MAX_ALERTS_PER_TRIGGER \<le> get_count (alert_counters w) (buy_key e (fst u) stock ath_float)
   \<Longrightarrow> outbox (world_of (buy_user e alog stock ath_float live_float u w)) = outbox w
     \<and> alert_counters (world_of (buy_user e alog stock ath_float live_float u w)) = alert_counters w"
  by (auto simp: buy_user_def Let_def world_of_log_counters world_of_log_outbox
           split: option.splits)

lemma buy_user_below_cap:
  assumes "\<not> buy_alert_sent_this_month alog (fst u) stock (year_month e)"
    and "live_float > ath_float"
    and "get_count (alert_counters w) (buy_key e (fst u) stock ath_float) < MAX_ALERTS_PER_TRIGGER"
  shows "outbox (world_of (buy_user e alog stock ath_float live_float u w)) =
           outbox w @ dispatch (telegram_id (snd u)) (email (snd u)) (''BUY ALERT for '' @ stock)
             (BuyAlert stock live_float ath_float
                (get_count (alert_counters w) (buy_key e (fst u) stock ath_float) + 1))"
    and "alert_counters (world_of (buy_user e alog stock ath_float live_float u w)) =
           (alert_counters w)(buy_key e (fst u) stock ath_float \<mapsto>
              get_count (alert_counters w) (buy_key e (fst u) stock ath_float) + 1)"
  using assms
  by (auto simp: buy_user_def Let_def world_of_log_counters world_of_log_outbox)

lemma buy_user_not_above:
  "\<not> live_float > ath_float \<Longrightarrow> buy_user e alog stock ath_float live_float u w = Inr w"
  by (simp add: buy_user_def Let_def)

lemma capped_upd:
  "capped w \<Longrightarrow> c \<le> MAX_ALERTS_PER_TRIGGER \<Longrightarrow> capped (w\<lparr>alert_counters := (alert_counters w)(k \<mapsto> c)\<rparr>)"
  by (simp add: capped_def)

lemma capped_cong:
  "alert_counters w' = alert_counters w \<Longrightarrow> capped w' = capped w"
  by (simp add: capped_def)

lemma capped_buy_user:
  "capped w \<Longrightarrow> capped (world_of (buy_user e alog stock ath_float live_float u w))"
  by (auto simp: buy_user_def Let_def capped_def log_buy_alert_month_def
           split: option.splits if_splits)

lemma capped_buy_users:
  "capped w \<Longrightarrow> capped (world_of (buy_users e alog stock ath_float live_float us w))"
proof (induction us arbitrary: w)
  case Nil
  then show ?case by simp
next
  case (Cons u us)
  show ?case
  proof (cases "buy_user e alog stock ath_float live_float u w")
    case (Inl xw)
    with capped_buy_user[OF Cons.prems, of e alog stock ath_float live_float u]
    show ?thesis by simp
  next
    case (Inr w')
    with capped_buy_user[OF Cons.prems, of e alog stock ath_float live_float u]
    have "capped w'" by simp
    with Cons.IH Inr show ?thesis by simp
  qed
qed

lemma capped_buy_row:
  "capped w \<Longrightarrow> capped (world_of (buy_row e alog um prices row w))"
  by (auto simp: buy_row_def Let_def capped_buy_users split: option.splits)

lemma capped_buy_phase:
  "capped w \<Longrightarrow> capped (world_of (buy_phase e alog um prices rows w))"
proof (induction rows arbitrary: w)
  case Nil
  then show ?case by simp
next
  case (Cons row rows)
  show ?case
  proof (cases "buy_row e alog um prices row w")
    case (Inl xw)
    with capped_buy_row[OF Cons.prems, of e alog um prices row]
    show ?thesis by simp
  next
    case (Inr w')
    with capped_buy_row[OF Cons.prems, of e alog um prices row]
    have "capped w'" by simp
    with Cons.IH Inr show ?thesis by simp
  qed
qed

lemma capped_sell_alert:
  "capped w \<Longrightarrow> capped (sell_alert e um row stock buy_price live_price sma_10m sma_20m w)"
  by (auto simp: sell_alert_def Let_def capped_def)

lemma capped_sell_row:
  "capped w \<Longrightarrow> capped (sell_row e um prices row w)"
  by (auto simp: sell_row_def Let_def capped_sell_alert split: option.splits)

lemma capped_sell_phase:
  "capped w \<Longrightarrow> capped (sell_phase e um prices rows w)"
  by (induction rows arbitrary: w) (auto simp: capped_sell_row)

lemma capped_scan:
  "capped w \<Longrightarrow> capped (world_of (scan c w))"
proof (cases "load_sheets c")
  case (Inl x)
  assume "capped w"
  with Inl show ?thesis by (simp add: scan_def)
next
  case (Inr sh)
  assume cw: "capped w"
  let ?b = "buy_phase (cycle_env c) (alert_log_data sh) (user_map sh)
             (get_prices (buy_ticker c) (buy_picks c) (filter (\<lambda>s. s \<noteq> []) (map Stock (ath_data sh))))
             (ath_data sh) w"
  have cb: "capped (world_of ?b)" using cw by (rule capped_buy_phase)
  show ?thesis
  proof (cases ?b)
    case (Inl xw)
    with cb Inr show ?thesis by (simp add: scan_def Let_def)
  next
    case b: (Inr w1)
    with cb have "capped w1" by simp
    then show ?thesis using Inr b by (simp add: scan_def Let_def capped_sell_phase)
  qed
qed

lemma capped_iteration:
  "capped w \<Longrightarrow> capped (iteration c w)"
proof -
  assume cw: "capped w"
  let ?w0 = "w\<lparr>console := console w @ [Scan_started]\<rparr>"
  have "capped ?w0" using cw by (simp add: capped_def)
  then have "capped (world_of (scan c ?w0))" by (rule capped_scan)
  then show ?thesis
    by (cases "scan c ?w0") (auto simp: iteration_def Let_def capped_def)
qed

lemma capped_main_loop:
  "capped w \<Longrightarrow> capped (main_loop cs w)"
  by (induction cs arbitrary: w) (auto simp: capped_iteration)

lemma capped_initial: "capped initial"
  by (simp add: capped_def initial_def)

lemma sell_alert_appended:
  "appended (sell_alert e um row stock buy_price live_price sma_10m sma_20m w) = appended w"
  by (simp add: sell_alert_def Let_def)

lemma sell_row_appended: "appended (sell_row e um prices row w) = appended w"
  by (simp add: sell_row_def Let_def sell_alert_appended split: option.splits)

lemma sell_phase_appended: "appended (sell_phase e um prices rows w) = appended w"
  by (induction rows arbitrary: w) (simp_all add: sell_row_appended)

lemma sell_alert_frame:
  "sell_alert e um row stock buy_price live_price sma_10m sma_20m (w\<lparr>appended := l\<rparr>) =
   (sell_alert e um row stock buy_price live_price sma_10m sma_20m w)\<lparr>appended := l\<rparr>"
  by (simp add: sell_alert_def Let_def)

lemma sell_row_frame:
  "sell_row e um prices row (w\<lparr>appended := l\<rparr>) = (sell_row e um prices row w)\<lparr>appended := l\<rparr>"
  by (simp add: sell_row_def Let_def sell_alert_frame split: option.splits)

lemma sell_phase_frame:
  "sell_phase e um prices rows (w\<lparr>appended := l\<rparr>) =
   (sell_phase e um prices rows w)\<lparr>appended := l\<rparr>"
  by (induction rows arbitrary: w) (simp_all add: sell_row_frame)

lemma sell_row_parsed:
  "h_Stock row \<noteq> [] \<Longrightarrow> py_float e (Buy_Price row) = Some buy_price
   \<Longrightarrow> price_get prices (h_Stock row) = Some live_price
   \<Longrightarrow> py_float e (py_or (SMA_10M row) (Some (Num 0))) = Some sma_10m
   \<Longrightarrow> py_float e (py_or (SMA_20M row) (Some (Num 0))) = Some sma_20m
   \<Longrightarrow> sell_row e um prices row w =
         sell_alert e um row (h_Stock row) buy_price live_price sma_10m sma_20m w"
  by (simp add: sell_row_def Let_def)

lemma unset_average: "\<not> truthy c \<Longrightarrow> py_float e (py_or c (Some (Num 0))) = Some 0"
  by (simp add: py_or_def)

lemma buy_user_silent:
  "telegram_id ui = [] \<Longrightarrow> email ui = []
   \<Longrightarrow> outbox (world_of (buy_user e alog stock ath_float live_float (n, ui) w)) = outbox w"
  by (auto simp: buy_user_def Let_def dispatch_def world_of_log_outbox split: option.splits)

lemma buy_user_counters_any_contact:
  "alert_counters (world_of (buy_user e alog stock ath_float live_float (n, ui) w)) =
   alert_counters (world_of (buy_user e alog stock ath_float live_float (n, ui') w))"
  by (auto simp: buy_user_def Let_def world_of_log_counters split: option.splits)

lemma world_of_log_appended:
  "appended (world_of (log_buy_alert_month e un st ym w)) =
     (if append_raises e (length (appended w)) then appended w
      else appended w @ [\<lparr>User = un, log_Stock = st, YearMonth = ym, AlertType = ''buy''\<rparr>])"
  by (simp add: log_buy_alert_month_def)

lemma buy_user_appended_any_contact:
  "appended (world_of (buy_user e alog stock ath_float live_float (n, ui) w)) =
   appended (world_of (buy_user e alog stock ath_float live_float (n, ui') w))"
  by (auto simp: buy_user_def Let_def world_of_log_appended split: option.splits)

lemma buy_user_reaches_cap:
  assumes "\<not> buy_alert_sent_this_month alog n stock (year_month e)"
    and "live_float > ath_float"
    and "get_count (alert_counters w) (buy_key e n stock ath_float) + 1 = MAX_ALERTS_PER_TRIGGER"
    and "\<not> append_raises e (length (appended w))"
  shows "appended (world_of (buy_user e alog stock ath_float live_float (n, ui) w)) =
           appended w @ [\<lparr>User = n, log_Stock = stock, YearMonth = year_month e, AlertType = ''buy''\<rparr>]"
  using assms
  by (auto simp: buy_user_def Let_def world_of_log_appended)

lemma sell_alert_absent_owner:
  "lookup_user um (Name row) = None
   \<Longrightarrow> outbox (sell_alert e um row stock buy_price live_price sma_10m sma_20m w) = outbox w"
  by (simp add: sell_alert_def Let_def dispatch_def)

lemma sell_alert_counters_any_directory:
  "alert_counters (sell_alert e um row stock buy_price live_price sma_10m sma_20m w) =
   alert_counters (sell_alert e um' row stock buy_price live_price sma_10m sma_20m w)"
  by (simp add: sell_alert_def Let_def)

lemma mset_finish_order: "mset (finish_order picks xs) = mset xs"
proof (induction picks xs rule: finish_order.induct)
  case (1 picks)
  show ?case by simp
next
  case (2 x xs)
  show ?case by simp
next
  case (3 k picks x xs)
  let ?ys = "x # xs"
  let ?i = "k mod length ?ys"
  have i: "?i < length ?ys" by simp
  have "mset ?ys = mset (take ?i ?ys @ ?ys ! ?i # drop (Suc ?i) ?ys)"
    using id_take_nth_drop [OF i] by simp
  also have "\<dots> = add_mset (?ys ! ?i) (mset (take ?i ?ys @ drop (Suc ?i) ?ys))"
    by simp
  finally have split: "mset ?ys = add_mset (?ys ! ?i) (mset (take ?i ?ys @ drop (Suc ?i) ?ys))" .
  have "mset (finish_order (k # picks) ?ys) =
          add_mset (?ys ! ?i) (mset (finish_order picks (take ?i ?ys @ drop (Suc ?i) ?ys)))"
    by (simp add: Let_def)
  also have "\<dots> = add_mset (?ys ! ?i) (mset (take ?i ?ys @ drop (Suc ?i) ?ys))"
    using "3.IH" [of ?i] by simp
  finally show ?case using split by simp
qed

lemma set_finish_order: "set (finish_order picks xs) = set xs"
  using mset_finish_order [of picks xs] by (rule mset_eq_setD)

lemma drain_other: "s \<notin> fst ` set q \<Longrightarrow> drain q r s = r s"
proof (induction q arbitrary: r)
  case Nil
  show ?case by simp
next
  case (Cons a q)
  obtain symb price where a: "a = (symb, price)" by (cases a)
  from Cons.prems a have ne: "s \<noteq> symb" and notin: "s \<notin> fst ` set q" by auto
  have "drain (a # q) r s = drain q (r(symb \<mapsto> price)) s" by (simp only: a drain.simps)
  also have "\<dots> = (r(symb \<mapsto> price)) s" using notin by (rule Cons.IH)
  also have "\<dots> = r s" using ne by simp
  finally show ?case .
qed

lemma dom_drain: "dom (drain q r) = dom r \<union> fst ` set q"
proof (induction q arbitrary: r)
  case Nil
  show ?case by simp
next
  case (Cons a q)
  obtain symb price where a: "a = (symb, price)" by (cases a)
  have "dom (drain (a # q) r) = dom (drain q (r(symb \<mapsto> price)))"
    by (simp only: a drain.simps)
  also have "\<dots> = dom (r(symb \<mapsto> price)) \<union> fst ` set q" by (rule Cons.IH)
  also have "\<dots> = dom r \<union> fst ` set (a # q)" using a by auto
  finally show ?case .
qed

lemma drain_agreed:
  "s \<in> fst ` set q \<Longrightarrow> (\<forall>p. (s, p) \<in> set q \<longrightarrow> p = v) \<Longrightarrow> drain q r s = Some v"
proof (induction q arbitrary: r)
  case Nil
  then show ?case by simp
next
  case (Cons a q)
  obtain symb price where a: "a = (symb, price)" by (cases a)
  have step: "drain (a # q) r s = drain q (r(symb \<mapsto> price)) s"
    by (simp only: a drain.simps)
  show ?case
  proof (cases "s \<in> fst ` set q")
    case True
    have "\<forall>p. (s, p) \<in> set q \<longrightarrow> p = v" using Cons.prems(2) by simp
    with True have "drain q (r(symb \<mapsto> price)) s = Some v" by (rule Cons.IH)
    with step show ?thesis by simp
  next
    case False
    with Cons.prems a have "symb = s" "price = v" by auto
    then have "(r(symb \<mapsto> price)) s = Some v" by simp
    with step drain_other [OF False, of "r(symb \<mapsto> price)"] show ?thesis by simp
  qed
qed

lemma fst_fetch_price: "fst (fetch_price t s) = s"
  by (simp add: fetch_price_def split: history.splits)

lemma outputs_keys:
  "fst ` set (map (\<lambda>(i, s). fetch_price (ticker i) s) (enumerate 0 symbols)) = set symbols"
proof -
  let ?L = "map (\<lambda>(i, s). fetch_price (ticker i) s) (enumerate 0 symbols)"
  have "map fst ?L = map snd (enumerate 0 symbols)"
    by (simp add: fst_fetch_price case_prod_unfold comp_def)
  then have m: "map fst ?L = symbols" by simp
  have "fst ` set ?L = set (map fst ?L)" by (rule set_map [symmetric])
  also have "\<dots> = set symbols" by (simp only: m)
  finally show ?thesis .
qed

lemma outputs_member:
  "(s, p) \<in> set (map (\<lambda>(i, s). fetch_price (ticker i) s) (enumerate 0 symbols))
   \<Longrightarrow> \<exists>j<length symbols. symbols ! j = s \<and> p = snd (fetch_price (ticker j) s)"
proof -
  assume "(s, p) \<in> set (map (\<lambda>(i, s). fetch_price (ticker i) s) (enumerate 0 symbols))"
  then obtain j x where jx: "(j, x) \<in> set (enumerate 0 symbols)"
    and eq: "(s, p) = fetch_price (ticker j) x" by auto
  from jx have j: "j < length symbols" and x: "x = symbols ! j"
    by (auto simp: in_set_enumerate_eq)
  from eq have "s = x" using fst_fetch_price [of "ticker j" x] by (metis fst_conv)
  with eq j x show ?thesis by (metis snd_conv)
qed

lemma buy_alert_sent_this_month_iff:
  "buy_alert_sent_this_month alog user stock ym =
     (\<exists>r\<in>set alog. User r = user \<and> log_Stock r = stock \<and> YearMonth r = ym
        \<and> AlertType r = ''buy'')"
  by (induction alog) auto

lemma buy_users_all_suppressed:
  "(\<forall>u\<in>set um. buy_alert_sent_this_month alog (fst u) stock (year_month e))
   \<Longrightarrow> buy_users e alog stock ath_float live_float um w = Inr w"
  by (induction um) (simp_all add: buy_user_def Let_def)

lemma sell_row_long_branch:
  assumes "h_Stock row \<noteq> []" and "py_float e (Buy_Price row) = Some buy_price"
    and "price_get prices (h_Stock row) = Some live_price"
    and "py_float e (py_or (SMA_10M row) (Some (Num 0))) = Some sma_10m"
    and "py_float e (py_or (SMA_20M row) (Some (Num 0))) = Some sma_20m"
    and "live_price < 2 * buy_price"
  shows "sell_row e um prices row w =
     (if live_price < sma_20m \<and> 0 < sma_20m
         \<and> get_count (alert_counters w) (sell_key (Name row) (h_Stock row)
              (''Price below 20M SMA ('' @ str_of_float e sma_20m @ '')'')) < MAX_ALERTS_PER_TRIGGER
      then w\<lparr>outbox := outbox w @
                dispatch (case lookup_user um (Name row) of Some ui \<Rightarrow> telegram_id ui | None \<Rightarrow> [])
                  (case lookup_user um (Name row) of Some ui \<Rightarrow> email ui | None \<Rightarrow> [])
                  (''SELL ALERT for '' @ h_Stock row)
                  (SellAlert (h_Stock row) live_price buy_price
                     (''Price below 20M SMA ('' @ str_of_float e sma_20m @ '')'')
                     (get_count (alert_counters w) (sell_key (Name row) (h_Stock row)
                        (''Price below 20M SMA ('' @ str_of_float e sma_20m @ '')'')) + 1)),
              alert_counters := (alert_counters w)
                (sell_key (Name row) (h_Stock row)
                   (''Price below 20M SMA ('' @ str_of_float e sma_20m @ '')'') \<mapsto>
                 get_count (alert_counters w) (sell_key (Name row) (h_Stock row)
                   (''Price below 20M SMA ('' @ str_of_float e sma_20m @ '')'')) + 1)\<rparr>
      else w)"
proof -
  from assms(6) have b: "live_price < buy_price * 2" by (simp add: mult.commute)
  show ?thesis
    by (simp add: sell_row_parsed [OF assms(1-5)] sell_alert_def sell_signal_def Let_def b)
qed

lemma sell_row_short_branch:
  assumes "h_Stock row \<noteq> []" and "py_float e (Buy_Price row) = Some buy_price"
    and "price_get prices (h_Stock row) = Some live_price"
    and "py_float e (py_or (SMA_10M row) (Some (Num 0))) = Some sma_10m"
    and "py_float e (py_or (SMA_20M row) (Some (Num 0))) = Some sma_20m"
    and "\<not> live_price < 2 * buy_price"
  shows "sell_row e um prices row w =
     (if live_price < sma_10m \<and> 0 < sma_10m
         \<and> get_count (alert_counters w) (sell_key (Name row) (h_Stock row)
              (''Price below 10M SMA ('' @ str_of_float e sma_10m @ '')'')) < MAX_ALERTS_PER_TRIGGER
      then w\<lparr>outbox := outbox w @
                dispatch (case lookup_user um (Name row) of Some ui \<Rightarrow> telegram_id ui | None \<Rightarrow> [])
                  (case lookup_user um (Name row) of Some ui \<Rightarrow> email ui | None \<Rightarrow> [])
                  (''SELL ALERT for '' @ h_Stock row)
                  (SellAlert (h_Stock row) live_price buy_price
                     (''Price below 10M SMA ('' @ str_of_float e sma_10m @ '')'')
                     (get_count (alert_counters w) (sell_key (Name row) (h_Stock row)
                        (''Price below 10M SMA ('' @ str_of_float e sma_10m @ '')'')) + 1)),
              alert_counters := (alert_counters w)
                (sell_key (Name row) (h_Stock row)
                   (''Price below 10M SMA ('' @ str_of_float e sma_10m @ '')'') \<mapsto>
                 get_count (alert_counters w) (sell_key (Name row) (h_Stock row)
                   (''Price below 10M SMA ('' @ str_of_float e sma_10m @ '')'')) + 1)\<rparr>
      else w)"
proof -
  from assms(6) have b: "\<not> live_price < buy_price * 2" by (simp add: mult.commute)
  show ?thesis
    by (simp add: sell_row_parsed [OF assms(1-5)] sell_alert_def sell_signal_def Let_def b)
qed

lemma sell_alert_counts:
  "fst (sell_signal e live_price buy_price sma_10m sma_20m)
   \<Longrightarrow> get_count (alert_counters w)
         (sell_key (Name row) stock (snd (sell_signal e live_price buy_price sma_10m sma_20m)))
       < MAX_ALERTS_PER_TRIGGER
   \<Longrightarrow> alert_counters (sell_alert e um row stock buy_price live_price sma_10m sma_20m w)
         (sell_key (Name row) stock (snd (sell_signal e live_price buy_price sma_10m sma_20m))) =
       Some (get_count (alert_counters w)
         (sell_key (Name row) stock (snd (sell_signal e live_price buy_price sma_10m sma_20m))) + 1)"
  by (simp add: sell_alert_def Let_def)




lemma get_count_cong: "m k = m' k \<Longrightarrow> get_count m k = get_count m' k"
  by (simp add: get_count_def)

lemmas dup_defs = iteration_def scan_def dup_cycle_def demo_ath_row_def get_prices_def
  fetch_price_def buy_row_def price_get_def py_or_def buy_user_def buy_key_def demo_env_def
  demo_user_def dispatch_def get_count_def log_buy_alert_month_def MAX_ALERTS_PER_TRIGGER_def
  initial_def demo_log_row_def CHECK_INTERVAL_def Let_def
















section \<open>Monthly suppression\<close>

text \<open>
  C2. The search of \<open>buy_alert_sent_this_month\<close> succeeds exactly when some row of the
  alert log read at the start of the cycle is a buy row for the user, the stock and the
  month, wherever the row stands in the log. When the log holds such a row, the buy
  evaluation of that user and stock returns the world as it was, whatever the live price
  and the reference are: nothing is sent, no counter changes, nothing is appended and
  nothing is raised. When it holds one for every user of the directory, the whole loop
  over the users does nothing for that stock.
\<close>

theorem suppressed_month_skips_buy:
  "buy_alert_sent_this_month alog user stock ym =
     (\<exists>r\<in>set alog. User r = user \<and> log_Stock r = stock \<and> YearMonth r = ym
        \<and> AlertType r = ''buy'')
   \<and> ((\<exists>r\<in>set alog. User r = fst u \<and> log_Stock r = stock \<and> YearMonth r = year_month e
         \<and> AlertType r = ''buy'') \<longrightarrow>
       buy_user e alog stock ath_float live_float u w = Inr w)
   \<and> ((\<forall>u\<in>set um. \<exists>r\<in>set alog. User r = fst u \<and> log_Stock r = stock
         \<and> YearMonth r = year_month e \<and> AlertType r = ''buy'') \<longrightarrow>
       buy_users e alog stock ath_float live_float um w = Inr w)"
proof (intro conjI impI)
  show "buy_alert_sent_this_month alog user stock ym =
     (\<exists>r\<in>set alog. User r = user \<and> log_Stock r = stock \<and> YearMonth r = ym
        \<and> AlertType r = ''buy'')"
    by (rule buy_alert_sent_this_month_iff)
next
  assume "\<exists>r\<in>set alog. User r = fst u \<and> log_Stock r = stock \<and> YearMonth r = year_month e
         \<and> AlertType r = ''buy''"
  then have "buy_alert_sent_this_month alog (fst u) stock (year_month e)"
    by (simp only: buy_alert_sent_this_month_iff)
  then show "buy_user e alog stock ath_float live_float u w = Inr w"
    by (simp add: buy_user_def Let_def)
next
  assume "\<forall>u\<in>set um. \<exists>r\<in>set alog. User r = fst u \<and> log_Stock r = stock
         \<and> YearMonth r = year_month e \<and> AlertType r = ''buy''"
  then have "\<forall>u\<in>set um. buy_alert_sent_this_month alog (fst u) stock (year_month e)"
    by (simp only: buy_alert_sent_this_month_iff)
  then show "buy_users e alog stock ath_float live_float um w = Inr w"
    by (rule buy_users_all_suppressed)
qed

theorem suppressed_month_skips_buy_witness:
  "(\<exists>r\<in>set [other_log_row, demo_log_row]. User r = fst demo_user \<and> log_Stock r = ''AAA''
       \<and> YearMonth r = year_month demo_env \<and> AlertType r = ''buy'')
   \<and> buy_alert_sent_this_month [other_log_row, demo_log_row] ''U'' ''AAA'' ''2024-05''
   \<and> \<not> buy_alert_sent_this_month [other_log_row] ''U'' ''AAA'' ''2024-05''
   \<and> buy_user demo_env [other_log_row, demo_log_row] ''AAA'' 100 105 demo_user initial =
       Inr initial
   \<and> buy_users demo_env [other_log_row, demo_log_row] ''AAA'' 100 105 [demo_user] initial =
       Inr initial"
proof -
  let ?log = "[other_log_row, demo_log_row]"
  note T = suppressed_month_skips_buy [where alog = ?log and user = "''U''"
      and stock = "''AAA''" and ym = "''2024-05''" and u = demo_user and e = demo_env
      and ath_float = 100 and live_float = 105 and w = initial and um = "[demo_user]"]
  note N = suppressed_month_skips_buy [where alog = "[other_log_row]" and user = "''U''"
      and stock = "''AAA''" and ym = "''2024-05''" and u = demo_user and e = demo_env
      and ath_float = 100 and live_float = 105 and w = initial and um = "[demo_user]"]
  have h: "\<exists>r\<in>set ?log. User r = fst demo_user \<and> log_Stock r = ''AAA''
       \<and> YearMonth r = year_month demo_env \<and> AlertType r = ''buy''"
    by (simp add: demo_log_row_def demo_user_def demo_env_def)
  have hs: "\<forall>u\<in>set [demo_user]. \<exists>r\<in>set ?log. User r = fst u \<and> log_Stock r = ''AAA''
       \<and> YearMonth r = year_month demo_env \<and> AlertType r = ''buy''"
    by (simp add: demo_log_row_def demo_user_def demo_env_def)
  have a: "buy_alert_sent_this_month ?log ''U'' ''AAA'' ''2024-05''"
    unfolding T [THEN conjunct1] by (simp add: demo_log_row_def)
  have b: "\<not> buy_alert_sent_this_month [other_log_row] ''U'' ''AAA'' ''2024-05''"
    unfolding N [THEN conjunct1] by (simp add: other_log_row_def)
  have c: "buy_user demo_env ?log ''AAA'' 100 105 demo_user initial = Inr initial"
    using T [THEN conjunct2, THEN conjunct1, rule_format, OF h] .
  have d: "buy_users demo_env ?log ''AAA'' 100 105 [demo_user] initial = Inr initial"
    using T [THEN conjunct2, THEN conjunct2] hs by blast
  show ?thesis
    by (intro conjI h a b c d)
qed

section \<open>The cap of five\<close>

text \<open>
  C3. Once the counter of an alert key has reached \<open>MAX_ALERTS_PER_TRIGGER = 5\<close>, a
  further trigger of that key sends nothing on either channel and leaves every counter
  as it was, in the buy evaluation and in the sell evaluation alike; and after any
  number of passes of the scan loop from the initial state no counter exceeds 5.
\<close>

theorem cap_blocks_further_alerts:
  "(MAX_ALERTS_PER_TRIGGER \<le> get_count (alert_counters w) (buy_key e (fst u) stock ath_float) \<longrightarrow>
      outbox (world_of (buy_user e alog stock ath_float live_float u w)) = outbox w
      \<and> alert_counters (world_of (buy_user e alog stock ath_float live_float u w)) = alert_counters w)
   \<and> (MAX_ALERTS_PER_TRIGGER \<le> get_count (alert_counters w)
         (sell_key (Name row) hstock (snd (sell_signal e live_price buy_price sma_10m sma_20m))) \<longrightarrow>
      sell_alert e um row hstock buy_price live_price sma_10m sma_20m w = w)
   \<and> capped (main_loop cs initial)"
proof (intro conjI impI)
  assume "MAX_ALERTS_PER_TRIGGER \<le> get_count (alert_counters w) (buy_key e (fst u) stock ath_float)"
  from buy_user_at_cap [OF this]
  show "outbox (world_of (buy_user e alog stock ath_float live_float u w)) = outbox w"
    and "alert_counters (world_of (buy_user e alog stock ath_float live_float u w)) = alert_counters w"
    by simp_all
next
  assume "MAX_ALERTS_PER_TRIGGER \<le> get_count (alert_counters w)
         (sell_key (Name row) hstock (snd (sell_signal e live_price buy_price sma_10m sma_20m)))"
  then show "sell_alert e um row hstock buy_price live_price sma_10m sma_20m w = w"
    by (simp add: sell_alert_def Let_def)
next
  show "capped (main_loop cs initial)"
    by (rule capped_main_loop [OF capped_initial])
qed


theorem cap_blocks_further_alerts_witness:
  "MAX_ALERTS_PER_TRIGGER \<le> get_count (alert_counters capped_world)
       (buy_key demo_env (fst demo_user) ''AAA'' 100)
   \<and> outbox (world_of (buy_user demo_env [] ''AAA'' 100 105 demo_user capped_world)) =
       outbox capped_world
   \<and> alert_counters (world_of (buy_user demo_env [] ''AAA'' 100 105 demo_user capped_world)) =
       alert_counters capped_world
   \<and> MAX_ALERTS_PER_TRIGGER \<le> get_count (alert_counters capped_world)
       (sell_key (Some ''U'') ''AAA'' (snd (sell_signal demo_env 150 100 0 160)))
   \<and> sell_alert demo_env [demo_user]
         \<lparr>h_Stock = ''AAA'', Buy_Price = Some (Num 100), SMA_10M = None,
           SMA_20M = Some (Num 160), Name = Some ''U''\<rparr> ''AAA'' 100 150 0 160 capped_world =
       capped_world
   \<and> capped (main_loop [] initial)"
proof -
  have b: "MAX_ALERTS_PER_TRIGGER \<le> get_count (alert_counters capped_world)
       (buy_key demo_env (fst demo_user) ''AAA'' 100)"
    by (simp add: capped_world_def demo_user_def get_count_def MAX_ALERTS_PER_TRIGGER_def)
  have s: "MAX_ALERTS_PER_TRIGGER \<le> get_count (alert_counters capped_world)
       (sell_key (Some ''U'') ''AAA'' (snd (sell_signal demo_env 150 100 0 160)))"
    by (simp add: capped_world_def sell_signal_def demo_env_def get_count_def
          MAX_ALERTS_PER_TRIGGER_def)
  from b s cap_blocks_further_alerts [where w = capped_world and e = demo_env and u = demo_user
      and stock = "''AAA''" and ath_float = 100 and live_float = 105 and alog = "[]"
      and row = "\<lparr>h_Stock = ''AAA'', Buy_Price = Some (Num 100), SMA_10M = None,
           SMA_20M = Some (Num 160), Name = Some ''U''\<rparr>"
      and hstock = "''AAA''" and live_price = 150 and buy_price = 100 and sma_10m = 0
      and sma_20m = 160 and um = "[demo_user]" and cs = "[]"]
  show ?thesis by simp
qed

section \<open>The buy condition\<close>

text \<open>
  C4. For a parsed pair of live price and reference that the monthly suppression does
  not block, the buy evaluation fires exactly when the live price is strictly above the
  reference: when it is not above, and in particular when the two are equal, the world
  is returned unchanged; when it is above and the key is below the cap, the alert goes
  to the user's channels with the next ordinal and the counter of the key goes up by
  one.
\<close>

theorem buy_fires_iff_strictly_above:
  assumes "\<not> buy_alert_sent_this_month alog (fst u) stock (year_month e)"
  shows "(\<not> live_float > ath_float \<longrightarrow>
            buy_user e alog stock ath_float live_float u w = Inr w)
       \<and> (live_float = ath_float \<longrightarrow>
            buy_user e alog stock ath_float live_float u w = Inr w)
       \<and> (live_float > ath_float \<longrightarrow>
            get_count (alert_counters w) (buy_key e (fst u) stock ath_float) < MAX_ALERTS_PER_TRIGGER \<longrightarrow>
            outbox (world_of (buy_user e alog stock ath_float live_float u w)) =
              outbox w @ dispatch (telegram_id (snd u)) (email (snd u)) (''BUY ALERT for '' @ stock)
                (BuyAlert stock live_float ath_float
                   (get_count (alert_counters w) (buy_key e (fst u) stock ath_float) + 1))
            \<and> alert_counters (world_of (buy_user e alog stock ath_float live_float u w)) =
              (alert_counters w)(buy_key e (fst u) stock ath_float \<mapsto>
                 get_count (alert_counters w) (buy_key e (fst u) stock ath_float) + 1))"
  using buy_user_below_cap [OF assms] buy_user_not_above
  by simp

theorem buy_fires_iff_strictly_above_witness:
  "\<not> buy_alert_sent_this_month [] (fst demo_user) ''AAA'' (year_month demo_env)
   \<and> buy_user demo_env [] ''AAA'' 100 100 demo_user initial = Inr initial
   \<and> get_count (alert_counters initial) (buy_key demo_env (fst demo_user) ''AAA'' 100)
        < MAX_ALERTS_PER_TRIGGER
   \<and> outbox (world_of (buy_user demo_env [] ''AAA'' 100 105 demo_user initial)) =
       [Telegram ''42'' (BuyAlert ''AAA'' 105 100 1),
        Email ''u@example.org'' ''BUY ALERT for AAA'' (BuyAlert ''AAA'' 105 100 1)]
   \<and> alert_counters (world_of (buy_user demo_env [] ''AAA'' 100 105 demo_user initial))
        (buy_key demo_env ''U'' ''AAA'' 100) = Some 1"
proof -
  have n: "\<not> buy_alert_sent_this_month [] (fst demo_user) ''AAA'' (year_month demo_env)"
    by simp
  have c: "get_count (alert_counters initial) (buy_key demo_env (fst demo_user) ''AAA'' 100)
        < MAX_ALERTS_PER_TRIGGER"
    by (simp add: initial_def get_count_def MAX_ALERTS_PER_TRIGGER_def)
  from n c buy_fires_iff_strictly_above [OF n, where ath_float = 100
      and live_float = 100 and w = initial]
    buy_fires_iff_strictly_above [OF n, where ath_float = 100
      and live_float = 105 and w = initial]
  show ?thesis
    by (simp add: dispatch_def demo_user_def initial_def get_count_def)
qed

section \<open>The sell condition\<close>

text \<open>
  C5. For a holding whose numbers parse, the sell evaluation looks at one branch only,
  chosen by the doubling test. Below twice the buy price it acts exactly when the live
  price is below a positive 20-month average: then, below the cap, the alert with the
  20-month reason goes to the owner's channels and the counter of the key goes up by
  one, and in every other case the world is unchanged. From twice the buy price on it
  does the same with the 10-month average and the 10-month reason. When the average of
  the selected branch is zero or negative nothing happens, and an unset average is read
  as zero.
\<close>

theorem sell_regime_switch:
  assumes "h_Stock row \<noteq> []" and "py_float e (Buy_Price row) = Some buy_price"
    and "price_get prices (h_Stock row) = Some live_price"
    and "py_float e (py_or (SMA_10M row) (Some (Num 0))) = Some sma_10m"
    and "py_float e (py_or (SMA_20M row) (Some (Num 0))) = Some sma_20m"
  shows "(live_price < 2 * buy_price \<longrightarrow>
      sell_row e um prices row w =
       (if live_price < sma_20m \<and> 0 < sma_20m
           \<and> get_count (alert_counters w) (sell_key (Name row) (h_Stock row)
                (''Price below 20M SMA ('' @ str_of_float e sma_20m @ '')''))
               < MAX_ALERTS_PER_TRIGGER
        then w\<lparr>outbox := outbox w @
                  dispatch (case lookup_user um (Name row) of
                              Some ui \<Rightarrow> telegram_id ui | None \<Rightarrow> [])
                    (case lookup_user um (Name row) of Some ui \<Rightarrow> email ui | None \<Rightarrow> [])
                    (''SELL ALERT for '' @ h_Stock row)
                    (SellAlert (h_Stock row) live_price buy_price
                       (''Price below 20M SMA ('' @ str_of_float e sma_20m @ '')'')
                       (get_count (alert_counters w) (sell_key (Name row) (h_Stock row)
                          (''Price below 20M SMA ('' @ str_of_float e sma_20m @ '')'')) + 1)),
                alert_counters := (alert_counters w)
                  (sell_key (Name row) (h_Stock row)
                     (''Price below 20M SMA ('' @ str_of_float e sma_20m @ '')'') \<mapsto>
                   get_count (alert_counters w) (sell_key (Name row) (h_Stock row)
                     (''Price below 20M SMA ('' @ str_of_float e sma_20m @ '')'')) + 1)\<rparr>
        else w))
   \<and> (\<not> live_price < 2 * buy_price \<longrightarrow>
      sell_row e um prices row w =
       (if live_price < sma_10m \<and> 0 < sma_10m
           \<and> get_count (alert_counters w) (sell_key (Name row) (h_Stock row)
                (''Price below 10M SMA ('' @ str_of_float e sma_10m @ '')''))
               < MAX_ALERTS_PER_TRIGGER
        then w\<lparr>outbox := outbox w @
                  dispatch (case lookup_user um (Name row) of
                              Some ui \<Rightarrow> telegram_id ui | None \<Rightarrow> [])
                    (case lookup_user um (Name row) of Some ui \<Rightarrow> email ui | None \<Rightarrow> [])
                    (''SELL ALERT for '' @ h_Stock row)
                    (SellAlert (h_Stock row) live_price buy_price
                       (''Price below 10M SMA ('' @ str_of_float e sma_10m @ '')'')
                       (get_count (alert_counters w) (sell_key (Name row) (h_Stock row)
                          (''Price below 10M SMA ('' @ str_of_float e sma_10m @ '')'')) + 1)),
                alert_counters := (alert_counters w)
                  (sell_key (Name row) (h_Stock row)
                     (''Price below 10M SMA ('' @ str_of_float e sma_10m @ '')'') \<mapsto>
                   get_count (alert_counters w) (sell_key (Name row) (h_Stock row)
                     (''Price below 10M SMA ('' @ str_of_float e sma_10m @ '')'')) + 1)\<rparr>
        else w))
   \<and> ((if live_price < 2 * buy_price then sma_20m else sma_10m) \<le> 0 \<longrightarrow>
        sell_row e um prices row w = w)
   \<and> (\<not> truthy c \<longrightarrow> py_float e (py_or c (Some (Num 0))) = Some 0)"
proof (intro conjI impI)
  assume "live_price < 2 * buy_price"
  with assms show "sell_row e um prices row w =
       (if live_price < sma_20m \<and> 0 < sma_20m
           \<and> get_count (alert_counters w) (sell_key (Name row) (h_Stock row)
                (''Price below 20M SMA ('' @ str_of_float e sma_20m @ '')''))
               < MAX_ALERTS_PER_TRIGGER
        then w\<lparr>outbox := outbox w @
                  dispatch (case lookup_user um (Name row) of
                              Some ui \<Rightarrow> telegram_id ui | None \<Rightarrow> [])
                    (case lookup_user um (Name row) of Some ui \<Rightarrow> email ui | None \<Rightarrow> [])
                    (''SELL ALERT for '' @ h_Stock row)
                    (SellAlert (h_Stock row) live_price buy_price
                       (''Price below 20M SMA ('' @ str_of_float e sma_20m @ '')'')
                       (get_count (alert_counters w) (sell_key (Name row) (h_Stock row)
                          (''Price below 20M SMA ('' @ str_of_float e sma_20m @ '')'')) + 1)),
                alert_counters := (alert_counters w)
                  (sell_key (Name row) (h_Stock row)
                     (''Price below 20M SMA ('' @ str_of_float e sma_20m @ '')'') \<mapsto>
                   get_count (alert_counters w) (sell_key (Name row) (h_Stock row)
                     (''Price below 20M SMA ('' @ str_of_float e sma_20m @ '')'')) + 1)\<rparr>
        else w)"
    by (rule sell_row_long_branch)
next
  assume "\<not> live_price < 2 * buy_price"
  with assms show "sell_row e um prices row w =
       (if live_price < sma_10m \<and> 0 < sma_10m
           \<and> get_count (alert_counters w) (sell_key (Name row) (h_Stock row)
                (''Price below 10M SMA ('' @ str_of_float e sma_10m @ '')''))
               < MAX_ALERTS_PER_TRIGGER
        then w\<lparr>outbox := outbox w @
                  dispatch (case lookup_user um (Name row) of
                              Some ui \<Rightarrow> telegram_id ui | None \<Rightarrow> [])
                    (case lookup_user um (Name row) of Some ui \<Rightarrow> email ui | None \<Rightarrow> [])
                    (''SELL ALERT for '' @ h_Stock row)
                    (SellAlert (h_Stock row) live_price buy_price
                       (''Price below 10M SMA ('' @ str_of_float e sma_10m @ '')'')
                       (get_count (alert_counters w) (sell_key (Name row) (h_Stock row)
                          (''Price below 10M SMA ('' @ str_of_float e sma_10m @ '')'')) + 1)),
                alert_counters := (alert_counters w)
                  (sell_key (Name row) (h_Stock row)
                     (''Price below 10M SMA ('' @ str_of_float e sma_10m @ '')'') \<mapsto>
                   get_count (alert_counters w) (sell_key (Name row) (h_Stock row)
                     (''Price below 10M SMA ('' @ str_of_float e sma_10m @ '')'')) + 1)\<rparr>
        else w)"
    by (rule sell_row_short_branch)
next
  assume z: "(if live_price < 2 * buy_price then sma_20m else sma_10m) \<le> 0"
  show "sell_row e um prices row w = w"
  proof (cases "live_price < 2 * buy_price")
    case True
    with z have "\<not> 0 < sma_20m" by simp
    with sell_row_long_branch [OF assms True] show ?thesis by simp
  next
    case False
    with z have "\<not> 0 < sma_10m" by simp
    with sell_row_short_branch [OF assms False] show ?thesis by simp
  qed
next
  assume "\<not> truthy c"
  then show "py_float e (py_or c (Some (Num 0))) = Some 0" by (rule unset_average)
qed

theorem sell_regime_switch_witness:
  "sell_row demo_env [demo_user] [''AAA'' \<mapsto> Some 150] demo_holding initial =
     initial\<lparr>outbox :=
         [Telegram ''42'' (SellAlert ''AAA'' 150 100 ''Price below 20M SMA (160.0)'' 1),
          Email ''u@example.org'' ''SELL ALERT for AAA''
            (SellAlert ''AAA'' 150 100 ''Price below 20M SMA (160.0)'' 1)],
       alert_counters :=
         [sell_key (Some ''U'') ''AAA'' ''Price below 20M SMA (160.0)'' \<mapsto> 1]\<rparr>
   \<and> sell_row doubled_env [demo_user] [''AAA'' \<mapsto> Some 210] doubled_holding initial =
     initial\<lparr>outbox :=
         [Telegram ''42'' (SellAlert ''AAA'' 210 100 ''Price below 10M SMA (220.0)'' 1),
          Email ''u@example.org'' ''SELL ALERT for AAA''
            (SellAlert ''AAA'' 210 100 ''Price below 10M SMA (220.0)'' 1)],
       alert_counters :=
         [sell_key (Some ''U'') ''AAA'' ''Price below 10M SMA (220.0)'' \<mapsto> 1]\<rparr>
   \<and> sell_row demo_env [demo_user] [''AAA'' \<mapsto> Some 210] demo_holding initial = initial
   \<and> py_float demo_env (py_or None (Some (Num 0))) = Some 0"
proof -
  have p1: "h_Stock demo_holding \<noteq> []" by (simp add: demo_holding_def)
  have p2: "py_float demo_env (Buy_Price demo_holding) = Some 100"
    by (simp add: demo_holding_def)
  have p3: "price_get [''AAA'' \<mapsto> Some 150] (h_Stock demo_holding) = Some 150"
    by (simp add: demo_holding_def price_get_def)
  have p3': "price_get [''AAA'' \<mapsto> Some 210] (h_Stock demo_holding) = Some 210"
    by (simp add: demo_holding_def price_get_def)
  have p4: "py_float demo_env (py_or (SMA_10M demo_holding) (Some (Num 0))) = Some 0"
    by (simp add: demo_holding_def py_or_def)
  have p5: "py_float demo_env (py_or (SMA_20M demo_holding) (Some (Num 0))) = Some 160"
    by (simp add: demo_holding_def py_or_def)
  have q1: "h_Stock doubled_holding \<noteq> []" by (simp add: doubled_holding_def)
  have q2: "py_float doubled_env (Buy_Price doubled_holding) = Some 100"
    by (simp add: doubled_holding_def)
  have q3: "price_get [''AAA'' \<mapsto> Some 210] (h_Stock doubled_holding) = Some 210"
    by (simp add: doubled_holding_def price_get_def)
  have q4: "py_float doubled_env (py_or (SMA_10M doubled_holding) (Some (Num 0))) = Some 220"
    by (simp add: doubled_holding_def py_or_def)
  have q5: "py_float doubled_env (py_or (SMA_20M doubled_holding) (Some (Num 0))) = Some 160"
    by (simp add: doubled_holding_def py_or_def)
  note low = sell_regime_switch [OF p1 p2 p3 p4 p5, where um = "[demo_user]" and w = initial
      and c = None]
  note high = sell_regime_switch [OF q1 q2 q3 q4 q5, where um = "[demo_user]" and w = initial
      and c = None]
  note unset = sell_regime_switch [OF p1 p2 p3' p4 p5, where um = "[demo_user]"
      and w = initial and c = None]
  have bl: "(150::real) < 2 * 100" by simp
  have bh: "\<not> (210::real) < 2 * 100" by simp
  have a: "sell_row demo_env [demo_user] [''AAA'' \<mapsto> Some 150] demo_holding initial =
     initial\<lparr>outbox :=
         [Telegram ''42'' (SellAlert ''AAA'' 150 100 ''Price below 20M SMA (160.0)'' 1),
          Email ''u@example.org'' ''SELL ALERT for AAA''
            (SellAlert ''AAA'' 150 100 ''Price below 20M SMA (160.0)'' 1)],
       alert_counters :=
         [sell_key (Some ''U'') ''AAA'' ''Price below 20M SMA (160.0)'' \<mapsto> 1]\<rparr>"
    unfolding low [THEN conjunct1, rule_format, OF bl]
    by (simp add: demo_holding_def demo_env_def demo_user_def initial_def lookup_user_def
          dispatch_def get_count_def MAX_ALERTS_PER_TRIGGER_def)
  have b: "sell_row doubled_env [demo_user] [''AAA'' \<mapsto> Some 210] doubled_holding initial =
     initial\<lparr>outbox :=
         [Telegram ''42'' (SellAlert ''AAA'' 210 100 ''Price below 10M SMA (220.0)'' 1),
          Email ''u@example.org'' ''SELL ALERT for AAA''
            (SellAlert ''AAA'' 210 100 ''Price below 10M SMA (220.0)'' 1)],
       alert_counters :=
         [sell_key (Some ''U'') ''AAA'' ''Price below 10M SMA (220.0)'' \<mapsto> 1]\<rparr>"
    unfolding high [THEN conjunct2, THEN conjunct1, rule_format, OF bh]
    by (simp add: doubled_holding_def doubled_env_def demo_env_def demo_user_def initial_def
          lookup_user_def dispatch_def get_count_def MAX_ALERTS_PER_TRIGGER_def)
  have z: "(if (210::real) < 2 * 100 then (160::real) else 0) \<le> 0" by simp
  have c: "sell_row demo_env [demo_user] [''AAA'' \<mapsto> Some 210] demo_holding initial = initial"
    using unset [THEN conjunct2, THEN conjunct2, THEN conjunct1, rule_format, OF z] .
  have nt: "\<not> truthy None" by simp
  have d: "py_float demo_env (py_or None (Some (Num 0))) = Some 0"
    using low [THEN conjunct2, THEN conjunct2, THEN conjunct2, rule_format, OF nt] .
  show ?thesis
    by (intro conjI a b c d)
qed

section \<open>The sell phase and the alert log\<close>

text \<open>
  C6. The sell phase never writes to the monthly suppression log: whatever the
  holdings, the prices and the counters are, the rows appended to the alert log after
  the sell phase are those before it, and the phase does not read them either (its
  result on a world with another list of appended rows differs in that list only).
\<close>

theorem sell_never_writes_log:
  "appended (sell_phase e um prices rows w) = appended w
   \<and> sell_phase e um prices rows (w\<lparr>appended := l\<rparr>) =
       (sell_phase e um prices rows w)\<lparr>appended := l\<rparr>"
  by (simp add: sell_phase_appended sell_phase_frame)


theorem sell_never_writes_log_witness:
  "appended (sell_phase demo_env [demo_user] [''AAA'' \<mapsto> Some 150] [demo_holding]
       (initial\<lparr>appended := [demo_log_row]\<rparr>)) = [demo_log_row]"
  using sell_never_writes_log [where e = demo_env and um = "[demo_user]"
      and prices = "[''AAA'' \<mapsto> Some 150]" and rows = "[demo_holding]"
      and w = "initial\<lparr>appended := [demo_log_row]\<rparr>" and l = "[]", THEN conjunct1]
  by simp

section \<open>Users without a contact method\<close>

text \<open>
  C7. For a user whose directory entry has neither a Telegram id nor an email address, a
  triggered buy alert hands nothing to either channel, and the evaluation goes on as for
  any other user: the counters and the appended rows after the step are those the step
  gives for the same user with any contact data; below the cap the counter of the key
  goes up by one, and when it reaches the cap and the append does not raise, the row
  for the user, the stock and the month is appended. A holding whose owner is not in
  the user directory is treated the same way in the sell evaluation: nothing is sent,
  the counters are those the evaluation gives with any other directory, and on a sell
  signal below the cap the counter of the key goes up by one.
\<close>

theorem no_contact_no_send:
  "(telegram_id ui = [] \<longrightarrow> email ui = [] \<longrightarrow>
      outbox (world_of (buy_user e alog stock ath_float live_float (n, ui) w)) = outbox w
      \<and> alert_counters (world_of (buy_user e alog stock ath_float live_float (n, ui) w)) =
          alert_counters (world_of (buy_user e alog stock ath_float live_float (n, ui') w))
      \<and> appended (world_of (buy_user e alog stock ath_float live_float (n, ui) w)) =
          appended (world_of (buy_user e alog stock ath_float live_float (n, ui') w)))
   \<and> (\<not> buy_alert_sent_this_month alog n stock (year_month e) \<longrightarrow> live_float > ath_float \<longrightarrow>
       get_count (alert_counters w) (buy_key e n stock ath_float) < MAX_ALERTS_PER_TRIGGER \<longrightarrow>
         alert_counters (world_of (buy_user e alog stock ath_float live_float (n, ui) w))
           (buy_key e n stock ath_float) =
           Some (get_count (alert_counters w) (buy_key e n stock ath_float) + 1)
         \<and> (get_count (alert_counters w) (buy_key e n stock ath_float) + 1 = MAX_ALERTS_PER_TRIGGER \<longrightarrow>
              \<not> append_raises e (length (appended w)) \<longrightarrow>
              appended (world_of (buy_user e alog stock ath_float live_float (n, ui) w)) =
                appended w @ [\<lparr>User = n, log_Stock = stock, YearMonth = year_month e,
                                AlertType = ''buy''\<rparr>]))
   \<and> (lookup_user um (Name row) = None \<longrightarrow>
        outbox (sell_alert e um row hstock buy_price live_price sma_10m sma_20m w) = outbox w
        \<and> alert_counters (sell_alert e um row hstock buy_price live_price sma_10m sma_20m w) =
            alert_counters (sell_alert e um' row hstock buy_price live_price sma_10m sma_20m w)
        \<and> (fst (sell_signal e live_price buy_price sma_10m sma_20m) \<longrightarrow>
            get_count (alert_counters w) (sell_key (Name row) hstock
                (snd (sell_signal e live_price buy_price sma_10m sma_20m)))
              < MAX_ALERTS_PER_TRIGGER \<longrightarrow>
            alert_counters (sell_alert e um row hstock buy_price live_price sma_10m sma_20m w)
                (sell_key (Name row) hstock
                   (snd (sell_signal e live_price buy_price sma_10m sma_20m))) =
              Some (get_count (alert_counters w) (sell_key (Name row) hstock
                (snd (sell_signal e live_price buy_price sma_10m sma_20m))) + 1)))"
proof (intro conjI impI)
  assume "telegram_id ui = []" "email ui = []"
  then show "outbox (world_of (buy_user e alog stock ath_float live_float (n, ui) w)) = outbox w"
    by (rule buy_user_silent)
next
  show "alert_counters (world_of (buy_user e alog stock ath_float live_float (n, ui) w)) =
          alert_counters (world_of (buy_user e alog stock ath_float live_float (n, ui') w))"
    by (rule buy_user_counters_any_contact)
next
  show "appended (world_of (buy_user e alog stock ath_float live_float (n, ui) w)) =
          appended (world_of (buy_user e alog stock ath_float live_float (n, ui') w))"
    by (rule buy_user_appended_any_contact)
next
  assume "\<not> buy_alert_sent_this_month alog n stock (year_month e)" "live_float > ath_float"
    "get_count (alert_counters w) (buy_key e n stock ath_float) < MAX_ALERTS_PER_TRIGGER"
  then show "alert_counters (world_of (buy_user e alog stock ath_float live_float (n, ui) w))
           (buy_key e n stock ath_float) =
           Some (get_count (alert_counters w) (buy_key e n stock ath_float) + 1)"
    using buy_user_below_cap(2) [of alog "(n, ui)" stock e ath_float live_float w] by simp
next
  assume "\<not> buy_alert_sent_this_month alog n stock (year_month e)" "live_float > ath_float"
    "get_count (alert_counters w) (buy_key e n stock ath_float) + 1 = MAX_ALERTS_PER_TRIGGER"
    "\<not> append_raises e (length (appended w))"
  then show "appended (world_of (buy_user e alog stock ath_float live_float (n, ui) w)) =
                appended w @ [\<lparr>User = n, log_Stock = stock, YearMonth = year_month e,
                                AlertType = ''buy''\<rparr>]"
    by (rule buy_user_reaches_cap)
next
  assume "lookup_user um (Name row) = None"
  then show "outbox (sell_alert e um row hstock buy_price live_price sma_10m sma_20m w) = outbox w"
    by (rule sell_alert_absent_owner)
next
  show "alert_counters (sell_alert e um row hstock buy_price live_price sma_10m sma_20m w) =
            alert_counters (sell_alert e um' row hstock buy_price live_price sma_10m sma_20m w)"
    by (rule sell_alert_counters_any_directory)
next
  assume "fst (sell_signal e live_price buy_price sma_10m sma_20m)"
    "get_count (alert_counters w) (sell_key (Name row) hstock
                (snd (sell_signal e live_price buy_price sma_10m sma_20m)))
              < MAX_ALERTS_PER_TRIGGER"
  then show "alert_counters (sell_alert e um row hstock buy_price live_price sma_10m sma_20m w)
                (sell_key (Name row) hstock
                   (snd (sell_signal e live_price buy_price sma_10m sma_20m))) =
              Some (get_count (alert_counters w) (sell_key (Name row) hstock
                (snd (sell_signal e live_price buy_price sma_10m sma_20m))) + 1)"
    by (rule sell_alert_counts)
qed

theorem no_contact_no_send_witness:
  "telegram_id (snd silent_user) = [] \<and> email (snd silent_user) = []
   \<and> outbox (world_of (buy_user demo_env [] ''AAA'' 100 105 (''U'', snd silent_user)
         (with_count (buy_key demo_env ''U'' ''AAA'' 100) 4))) =
       outbox (with_count (buy_key demo_env ''U'' ''AAA'' 100) 4)
   \<and> alert_counters (world_of (buy_user demo_env [] ''AAA'' 100 105 (''U'', snd silent_user)
         (with_count (buy_key demo_env ''U'' ''AAA'' 100) 4)))
         (buy_key demo_env ''U'' ''AAA'' 100) = Some 5
   \<and> appended (world_of (buy_user demo_env [] ''AAA'' 100 105 (''U'', snd silent_user)
         (with_count (buy_key demo_env ''U'' ''AAA'' 100) 4))) = [demo_log_row]
   \<and> lookup_user [] (Name demo_holding) = None
   \<and> outbox (sell_alert demo_env [] demo_holding ''AAA'' 100 150 0 160
         (with_count (buy_key demo_env ''U'' ''AAA'' 100) 4)) =
       outbox (with_count (buy_key demo_env ''U'' ''AAA'' 100) 4)
   \<and> fst (sell_signal demo_env 150 100 0 160)
   \<and> alert_counters (sell_alert demo_env [] demo_holding ''AAA'' 100 150 0 160
         (with_count (buy_key demo_env ''U'' ''AAA'' 100) 4))
         (sell_key (Some ''U'') ''AAA'' ''Price below 20M SMA (160.0)'') = Some 1"
proof -
  let ?k = "buy_key demo_env ''U'' ''AAA'' 100"
  let ?w = "with_count ?k 4"
  note T = no_contact_no_send [where ui = "snd silent_user" and ui' = "snd demo_user"
      and n = "''U''" and e = demo_env and alog = "[]" and stock = "''AAA''"
      and ath_float = 100 and live_float = 105 and w = ?w and um = "[]"
      and um' = "[demo_user]" and row = demo_holding and hstock = "''AAA''"
      and buy_price = 100 and live_price = 150 and sma_10m = 0 and sma_20m = 160]
  have h1: "telegram_id (snd silent_user) = []" by (simp add: silent_user_def)
  have h2: "email (snd silent_user) = []" by (simp add: silent_user_def)
  have a: "outbox (world_of (buy_user demo_env [] ''AAA'' 100 105 (''U'', snd silent_user) ?w)) =
       outbox ?w"
    using T [THEN conjunct1, rule_format, OF h1 h2, THEN conjunct1] .
  have n: "\<not> buy_alert_sent_this_month [] ''U'' ''AAA'' (year_month demo_env)" by simp
  have g: "(105::real) > 100" by simp
  have c4: "get_count (alert_counters ?w) ?k = 4"
    by (simp add: with_count_def initial_def get_count_def)
  have c: "get_count (alert_counters ?w) ?k < MAX_ALERTS_PER_TRIGGER"
    by (simp add: c4 MAX_ALERTS_PER_TRIGGER_def)
  have c2: "get_count (alert_counters ?w) ?k + 1 = MAX_ALERTS_PER_TRIGGER"
    by (simp add: c4 MAX_ALERTS_PER_TRIGGER_def)
  have r: "\<not> append_raises demo_env (length (appended ?w))" by (simp add: demo_env_def)
  note U = T [THEN conjunct2, THEN conjunct1, rule_format, OF n g c]
  have b: "alert_counters (world_of (buy_user demo_env [] ''AAA'' 100 105
             (''U'', snd silent_user) ?w)) ?k = Some 5"
    using U [THEN conjunct1] by (simp only: c4) simp
  have ap: "appended ?w = []" by (simp add: with_count_def initial_def)
  have ym: "year_month demo_env = ''2024-05''" by (simp add: demo_env_def)
  have d: "appended (world_of (buy_user demo_env [] ''AAA'' 100 105
             (''U'', snd silent_user) ?w)) = [demo_log_row]"
    using U [THEN conjunct2, rule_format, OF c2 r] by (simp only: ap ym demo_log_row_def) simp
  have l: "lookup_user [] (Name demo_holding) = None"
    by (simp add: lookup_user_def demo_holding_def)
  have s: "outbox (sell_alert demo_env [] demo_holding ''AAA'' 100 150 0 160 ?w) = outbox ?w"
    using T [THEN conjunct2, THEN conjunct2, rule_format, OF l, THEN conjunct1] .
  have sg: "fst (sell_signal demo_env 150 100 0 160)" by (simp add: sell_signal_def)
  have rs: "snd (sell_signal demo_env 150 100 0 160) = ''Price below 20M SMA (160.0)''"
    by (simp add: sell_signal_def demo_env_def)
  have nm: "Name demo_holding = Some ''U''" by (simp add: demo_holding_def)
  have s0: "get_count (alert_counters ?w) (sell_key (Name demo_holding) ''AAA''
              (snd (sell_signal demo_env 150 100 0 160))) = 0"
    by (simp add: rs nm with_count_def initial_def get_count_def sell_key_def buy_key_def)
  have s1: "get_count (alert_counters ?w)
              (sell_key (Some ''U'') ''AAA'' ''Price below 20M SMA (160.0)'') = 0"
    by (simp add: with_count_def initial_def get_count_def sell_key_def buy_key_def)
  have sc: "get_count (alert_counters ?w) (sell_key (Name demo_holding) ''AAA''
              (snd (sell_signal demo_env 150 100 0 160))) < MAX_ALERTS_PER_TRIGGER"
    by (simp add: s0 MAX_ALERTS_PER_TRIGGER_def)
  have si: "alert_counters (sell_alert demo_env [] demo_holding ''AAA'' 100 150 0 160 ?w)
         (sell_key (Some ''U'') ''AAA'' ''Price below 20M SMA (160.0)'') = Some 1"
    using T [THEN conjunct2, THEN conjunct2, rule_format, OF l, THEN conjunct2,
        THEN conjunct2, rule_format, OF sg sc]
    unfolding nm rs s1 by simp
  show ?thesis
    by (intro conjI h1 h2 a b d l s sg si)
qed

section \<open>Completeness of the fetched prices\<close>

text \<open>
  C9. Whatever the symbols requested, the answers of the provider and the order in which
  the lookup threads finish, the mapping returned by \<open>get_prices\<close> has an entry for
  exactly the requested symbols. The entry of a symbol is decided by the lookups of that
  symbol alone: when they all give the value \<open>v\<close>, the entry is \<open>v\<close>, whatever
  the lookups of the other symbols do. A lookup that raises or returns no rows puts
  \<open>None\<close> for its symbol, any other the last close.
\<close>

theorem get_prices_complete:
  "dom (get_prices ticker picks symbols) = set symbols
   \<and> (s \<in> set symbols \<longrightarrow>
        (\<forall>j<length symbols. symbols ! j = s \<longrightarrow> snd (fetch_price (ticker j) s) = v) \<longrightarrow>
        get_prices ticker picks symbols s = Some v)
   \<and> fetch_price t s =
        (s, case t (yf_symbol s) of
              Raises x \<Rightarrow> None
            | Closes hist \<Rightarrow> if hist = [] then None else Some (last hist))"
proof (intro conjI impI)
  show "dom (get_prices ticker picks symbols) = set symbols"
    by (simp only: get_prices_def dom_drain set_finish_order outputs_keys) simp
next
  assume s: "s \<in> set symbols"
    and all: "\<forall>j<length symbols. symbols ! j = s \<longrightarrow> snd (fetch_price (ticker j) s) = v"
  let ?out = "map (\<lambda>(i, s). fetch_price (ticker i) s) (enumerate 0 symbols)"
  let ?q = "finish_order picks ?out"
  have "s \<in> fst ` set ?q" using s by (simp only: set_finish_order outputs_keys)
  moreover have "\<forall>p. (s, p) \<in> set ?q \<longrightarrow> p = v"
  proof (intro allI impI)
    fix p assume "(s, p) \<in> set ?q"
    then have "(s, p) \<in> set ?out" by (simp only: set_finish_order)
    from outputs_member [OF this] all show "p = v" by auto
  qed
  ultimately have "drain ?q Map.empty s = Some v" by (rule drain_agreed)
  then show "get_prices ticker picks symbols s = Some v" by (simp add: get_prices_def)
next
  show "fetch_price t s =
        (s, case t (yf_symbol s) of
              Raises x \<Rightarrow> None
            | Closes hist \<Rightarrow> if hist = [] then None else Some (last hist))"
    by (simp add: fetch_price_def split: history.splits)
qed

theorem get_prices_complete_witness:
  "dom (get_prices demo_ticker [1] [''AAA'', ''BBB'']) = {''AAA'', ''BBB''}
   \<and> ''AAA'' \<in> set [''AAA'', ''BBB'']
   \<and> get_prices demo_ticker [1] [''AAA'', ''BBB''] ''AAA'' = Some None
   \<and> ''BBB'' \<in> set [''AAA'', ''BBB'']
   \<and> get_prices demo_ticker [1] [''AAA'', ''BBB''] ''BBB'' = Some (Some 12)"
proof -
  let ?syms = "[''AAA'', ''BBB'']"
  note A = get_prices_complete [where ticker = demo_ticker and picks = "[1]"
      and symbols = ?syms and s = "''AAA''" and v = None and t = "demo_ticker 0"]
  note B = get_prices_complete [where ticker = demo_ticker and picks = "[1]"
      and symbols = ?syms and s = "''BBB''" and v = "Some 12" and t = "demo_ticker 1"]
  have ma: "''AAA'' \<in> set ?syms" by simp
  have mb: "''BBB'' \<in> set ?syms" by simp
  have two: "j = 0 \<or> j = 1" if "j < length ?syms" for j
    using that by auto
  have la: "snd (fetch_price (demo_ticker j) ''AAA'') = None"
    if "j < length ?syms" and "?syms ! j = ''AAA''" for j
  proof -
    from two [OF that(1)] that(2) have "j = 0" by auto
    then show ?thesis by (simp add: fetch_price_def demo_ticker_def)
  qed
  have lb: "snd (fetch_price (demo_ticker j) ''BBB'') = Some 12"
    if "j < length ?syms" and "?syms ! j = ''BBB''" for j
  proof -
    from two [OF that(1)] that(2) have "j = 1" by auto
    then show ?thesis by (simp add: fetch_price_def demo_ticker_def)
  qed
  have d: "dom (get_prices demo_ticker [1] ?syms) = {''AAA'', ''BBB''}"
    using A [THEN conjunct1] by simp
  have ra: "get_prices demo_ticker [1] ?syms ''AAA'' = Some None"
    using A [THEN conjunct2, THEN conjunct1, rule_format, OF ma la] .
  have rb: "get_prices demo_ticker [1] ?syms ''BBB'' = Some (Some 12)"
    using B [THEN conjunct2, THEN conjunct1, rule_format, OF mb lb] .
  show ?thesis
    by (intro conjI d ma ra mb rb)
qed

section \<open>The sell key and the moving average\<close>



section \<open>The suppression record at the cap\<close>

text \<open>
  C1. The test \<open>alert_counters[alert_key] == MAX_ALERTS_PER_TRIGGER\<close> of line 169 stands
  after the block that sends, not inside it, so it also holds when nothing was sent
  because the key had reached the cap before. Evaluated with a key at 5 and a log
  snapshot without the row, the buy evaluation of a price above the reference sends
  nothing and appends the row again. A watch list that names a stock twice gets there
  from the initial state: after two passes the counter is at 4 and nothing is appended;
  in the third pass the first row sends the fifth alert and appends the row, and the
  second row, read against the same snapshot, appends it a second time.
\<close>

theorem capped_key_appends_again:
  "buy_user demo_env [] ''AAA'' 100 105 demo_user capped_world =
     Inr (capped_world\<lparr>appended := [demo_log_row]\<rparr>)
   \<and> get_count (alert_counters (main_loop [dup_cycle, dup_cycle] initial))
         (buy_key demo_env ''U'' ''AAA'' 100) = 4
   \<and> appended (main_loop [dup_cycle, dup_cycle] initial) = []
   \<and> appended (main_loop [dup_cycle, dup_cycle, dup_cycle] initial) =
       [demo_log_row, demo_log_row]
   \<and> length (outbox (main_loop [dup_cycle, dup_cycle, dup_cycle] initial)) = 10"
proof (intro conjI)
  show "buy_user demo_env [] ''AAA'' 100 105 demo_user capped_world =
     Inr (capped_world\<lparr>appended := [demo_log_row]\<rparr>)"
    by (simp add: capped_world_def sell_key_def dup_defs)
  show "get_count (alert_counters (main_loop [dup_cycle, dup_cycle] initial))
         (buy_key demo_env ''U'' ''AAA'' 100) = 4"
    by (simp add: dup_defs)
  show "appended (main_loop [dup_cycle, dup_cycle] initial) = []"
    by (simp add: dup_defs)
  show "appended (main_loop [dup_cycle, dup_cycle, dup_cycle] initial) =
       [demo_log_row, demo_log_row]"
    by (simp add: dup_defs)
  show "length (outbox (main_loop [dup_cycle, dup_cycle, dup_cycle] initial)) = 10"
    by (simp add: dup_defs)
qed

section \<open>Errors inside a cycle\<close>



end
